theory Spec2Isabelle
  imports Complex_Main "HOL-Library.Char_ord" "HOL-Library.List_Lexorder" "HOL-Library.AList"
begin

section \<open>Python values shared by the model\<close>

text \<open>
  The exceptions the modelled code can raise are the first nine constructors (all of
  them Python built-ins; \<open>OSError\<close> stands for any operating system error other than the
  three named ones).  The last four are the error names of the specification's
  taxonomy; no function of the source raises them, they are here so that statements
  about them can be written down.
\<close>

datatype error =
    ValueError
  | IndexError
  | KeyError
  | ZeroDivisionError
  | FileNotFoundError
  | IsADirectoryError
  | PermissionError
  | UnicodeDecodeError
  | OSError
  | ParseError "string list" nat
  | MissingResourceError
  | EmptyDatasetError
  | InvalidSubsetError

text \<open>
  \<^verbatim>\<open>xs[i]\<close> on a Python list: an index from \<open>-len\<close> to \<open>-1\<close> counts from the
  end, anything outside \<open>[-len, len)\<close> raises IndexError.
\<close>

definition py_getitem :: "'a list \<Rightarrow> int \<Rightarrow> error + 'a" where
  "py_getitem xs i =
     (if 0 \<le> i \<and> i < int (length xs) then Inr (xs ! nat i)
      else if - int (length xs) \<le> i \<and> i < 0 then Inr (xs ! nat (int (length xs) + i))
      else Inl IndexError)"

text \<open>
  \<^verbatim>\<open>d[k]\<close> on a Python dict, the dict being an association list in insertion order
  (\<^const>\<open>AList.update\<close> is \<^verbatim>\<open>d[k] = v\<close>: it replaces the value of a key in place
  and appends a new key at the end).
\<close>

definition dict_getitem :: "('k \<times> 'v) list \<Rightarrow> 'k \<Rightarrow> error + 'v" where
  "dict_getitem d k = (case map_of d k of None \<Rightarrow> Inl KeyError | Some v \<Rightarrow> Inr v)"


section \<open>viewer\_dataset.py: the cursor of one subset\<close>

text \<open>
  \<^verbatim>\<open>ViewerDataset.Subset\<close> holds the sample list \<^verbatim>\<open>_subset\<close> and the cursor
  \<^verbatim>\<open>_current_idx\<close>.  Every method is a function from the object's state to the
  outcome of the call (the returned value, or the exception) and the state the call
  leaves behind: an assignment made before the exception is raised stays made.
\<close>

record 'a Subset =
  subset :: "'a list"
  current_idx :: int

definition Subset_init :: "'a list \<Rightarrow> 'a Subset" where
  "Subset_init xs = \<lparr>subset = xs, current_idx = 0\<rparr>"

definition Subset_next_sample :: "'a Subset \<Rightarrow> (error + 'a) \<times> 'a Subset" where
  "Subset_next_sample s =
     (if length (subset s) = 0 then (Inl ZeroDivisionError, s)
      else
        let s' = s\<lparr>current_idx := (current_idx s + 1) mod int (length (subset s))\<rparr>
        in (py_getitem (subset s') (current_idx s'), s'))"

definition Subset_previous_sample :: "'a Subset \<Rightarrow> (error + 'a) \<times> 'a Subset" where
  "Subset_previous_sample s =
     (let idx = current_idx s - 1;
          s' = s\<lparr>current_idx := (if idx \<ge> 0 then idx else int (length (subset s)) - 1)\<rparr>
      in (py_getitem (subset s') (current_idx s'), s'))"

definition Subset_set_index :: "'a Subset \<Rightarrow> int \<Rightarrow> (error + unit) \<times> 'a Subset" where
  "Subset_set_index s idx = (Inr (), s\<lparr>current_idx := idx\<rparr>)"

definition Subset_get_current_sample :: "'a Subset \<Rightarrow> error + 'a" where
  "Subset_get_current_sample s = py_getitem (subset s) (current_idx s)"

definition Subset_get_current_index :: "'a Subset \<Rightarrow> int" where
  "Subset_get_current_index s = current_idx s"



section \<open>datasets: the entity classes\<close>

text \<open>
  Modelled from the spec: \<^verbatim>\<open>BaseTextDetectionAnnotation\<close>, \<^verbatim>\<open>BaseTextDetectionSample\<close>
  and \<^verbatim>\<open>BaseTextDetectionDataset\<close> are imported from
  \<^verbatim>\<open>datasets/base_text_detection_dataset.py\<close>, which is not among the sources.  Following
  section 3 of the spec, a sample is an image path with its ordered annotations, and
  a dataset is its root folder with a mapping from subset names to sample lists, empty
  when the base constructor returns; \<^verbatim>\<open>get_subsets_names\<close> lists the keys of that mapping
  and \<^verbatim>\<open>dataset[name]\<close> looks one up.  The mapping is a Python dict: an association list
  in insertion order.  A path is the list of its components.
\<close>

type_synonym path = "string list"

record 'ann BaseTextDetectionSample =
  image_path :: path
  annotations :: "'ann list"

record 'smp BaseTextDetectionDataset =
  dset_folder :: path
  subsets :: "(string \<times> 'smp list) list"

definition BaseTextDetectionDataset_init :: "path \<Rightarrow> 'smp BaseTextDetectionDataset" where
  "BaseTextDetectionDataset_init folder = \<lparr>dset_folder = folder, subsets = []\<rparr>"

definition get_subsets_names :: "'smp BaseTextDetectionDataset \<Rightarrow> string list" where
  "get_subsets_names ds = map fst (subsets ds)"

definition Dataset_getitem :: "'smp BaseTextDetectionDataset \<Rightarrow> string \<Rightarrow> error + 'smp list" where
  "Dataset_getitem ds subset_name = dict_getitem (subsets ds) subset_name"


section \<open>viewer\_dataset.py: the dataset wrapper\<close>

text \<open>
  \<^verbatim>\<open>ViewerDataset\<close> holds the dict \<^verbatim>\<open>_subsets\<close> from subset names to cursors and the
  name \<^verbatim>\<open>_current_subset\<close>.  The constructor's dict comprehension visits the names of
  the dataset in order and keeps the subsets whose length is not 0; then it takes the
  first key, \<^verbatim>\<open>list(self._subsets.keys())[0]\<close>.
\<close>

record 'a ViewerDataset =
  v_subsets :: "(string \<times> 'a Subset) list"
  current_subset :: string

fun comprehension ::
  "'a BaseTextDetectionDataset \<Rightarrow> string list \<Rightarrow> (string \<times> 'a Subset) list
     \<Rightarrow> error + (string \<times> 'a Subset) list" where
  "comprehension ds [] acc = Inr acc"
| "comprehension ds (subset_name # names) acc =
     (case Dataset_getitem ds subset_name of
        Inl e \<Rightarrow> Inl e
      | Inr xs \<Rightarrow>
          comprehension ds names
            (if length xs \<noteq> 0 then AList.update subset_name (Subset_init xs) acc else acc))"

definition ViewerDataset_init :: "'a BaseTextDetectionDataset \<Rightarrow> error + 'a ViewerDataset" where
  "ViewerDataset_init ds =
     (case comprehension ds (get_subsets_names ds) [] of
        Inl e \<Rightarrow> Inl e
      | Inr d \<Rightarrow>
          (case py_getitem (map fst d) 0 of
             Inl e \<Rightarrow> Inl e
           | Inr k \<Rightarrow> Inr \<lparr>v_subsets = d, current_subset = k\<rparr>))"

definition ViewerDataset_getitem :: "'a ViewerDataset \<Rightarrow> string \<Rightarrow> error + 'a Subset" where
  "ViewerDataset_getitem vd subset_name = dict_getitem (v_subsets vd) subset_name"

definition available_subsets :: "'a ViewerDataset \<Rightarrow> string list" where
  "available_subsets vd = map fst (v_subsets vd)"

definition get_current_subset :: "'a ViewerDataset \<Rightarrow> error + 'a Subset" where
  "get_current_subset vd = dict_getitem (v_subsets vd) (current_subset vd)"

definition get_current_subset_name :: "'a ViewerDataset \<Rightarrow> string" where
  "get_current_subset_name vd = current_subset vd"

definition set_current_subset ::
  "'a ViewerDataset \<Rightarrow> string \<Rightarrow> (error + unit) \<times> 'a ViewerDataset" where
  "set_current_subset vd subset_name = (Inr (), vd\<lparr>current_subset := subset_name\<rparr>)"

text \<open>
  The cursor found under the current name is an object of the dict; the call mutates
  it, so the dict of the resulting state holds the cursor as the call left it.
\<close>

definition ViewerDataset_next_sample ::
  "'a ViewerDataset \<Rightarrow> (error + 'a) \<times> 'a ViewerDataset" where
  "ViewerDataset_next_sample vd =
     (case dict_getitem (v_subsets vd) (current_subset vd) of
        Inl e \<Rightarrow> (Inl e, vd)
      | Inr s \<Rightarrow>
          (case Subset_next_sample s of
             (r, s') \<Rightarrow> (r, vd\<lparr>v_subsets := AList.update (current_subset vd) s' (v_subsets vd)\<rparr>)))"

definition ViewerDataset_previous_sample ::
  "'a ViewerDataset \<Rightarrow> (error + 'a) \<times> 'a ViewerDataset" where
  "ViewerDataset_previous_sample vd =
     (case dict_getitem (v_subsets vd) (current_subset vd) of
        Inl e \<Rightarrow> (Inl e, vd)
      | Inr s \<Rightarrow>
          (case Subset_previous_sample s of
             (r, s') \<Rightarrow> (r, vd\<lparr>v_subsets := AList.update (current_subset vd) s' (v_subsets vd)\<rparr>)))"

definition get_current_sample :: "'a ViewerDataset \<Rightarrow> error + 'a" where
  "get_current_sample vd =
     (case get_current_subset vd of Inl e \<Rightarrow> Inl e | Inr s \<Rightarrow> Subset_get_current_sample s)"

definition get_current_index :: "'a ViewerDataset \<Rightarrow> error + int" where
  "get_current_index vd =
     (case get_current_subset vd of Inl e \<Rightarrow> Inl e | Inr s \<Rightarrow> Inr (Subset_get_current_index s))"


section \<open>Python's built-in string functions\<close>

text \<open>
  A string is a list of characters, a character being a code point below 256: text
  with other code points has no counterpart here.  \<^verbatim>\<open>str.split()\<close> without arguments
  cuts a string at runs of whitespace and returns the pieces between them, none of them
  empty.  Below 256 the whitespace characters are tab, line feed, vertical tab, form
  feed, carriage return, the four separators 28 to 31, the space, the next-line
  character U+0085 and the no-break space U+00A0.
\<close>

definition is_space :: "char \<Rightarrow> bool" where
  "is_space c = ((of_char c :: nat) \<in> {9, 10, 11, 12, 13, 28, 29, 30, 31, 32, 133, 160})"

fun split_from :: "string \<Rightarrow> string \<Rightarrow> string list" where
  "split_from tok [] = (if tok = [] then [] else [tok])"
| "split_from tok (c # cs) =
     (if is_space c then (if tok = [] then split_from [] cs else tok # split_from [] cs)
      else split_from (tok @ [c]) cs)"

definition py_split :: "string \<Rightarrow> string list" where
  "py_split s = split_from [] s"

text \<open>
  \<^verbatim>\<open>int(s)\<close> and \<^verbatim>\<open>float(s)\<close> on a string without whitespace.  Both read an optional
  sign and then digits (below 256 the decimal digits are those of ASCII), where single
  underscores may stand between digits.
  \<^verbatim>\<open>float\<close> also reads a fraction after a point, an exponent after \<^verbatim>\<open>e\<close> or \<^verbatim>\<open>E\<close>,
  and the words \<^verbatim>\<open>inf\<close>, \<^verbatim>\<open>infinity\<close> and \<^verbatim>\<open>nan\<close> in any letter case.  \<open>None\<close> is
  the ValueError of the built-in.  A finite float is the real number its literal
  denotes: rounding to binary, overflow and underflow are not modelled, and neither is
  the interpreter's limit on the number of digits of an integer literal.
\<close>

datatype pyfloat = Finite real | PosInf | NegInf | NaN

definition is_digit :: "char \<Rightarrow> bool" where
  "is_digit c = (48 \<le> (of_char c :: nat) \<and> (of_char c :: nat) \<le> 57)"

definition digit_val :: "char \<Rightarrow> nat" where
  "digit_val c = of_char c - 48"

fun digitpart :: "string \<Rightarrow> nat list option" where
  "digitpart [] = None"
| "digitpart [c] = (if is_digit c then Some [digit_val c] else None)"
| "digitpart (c # d # cs) =
     (if \<not> is_digit c then None
      else if d = CHR ''_'' then map_option ((#) (digit_val c)) (digitpart cs)
      else map_option ((#) (digit_val c)) (digitpart (d # cs)))"

definition digits_value :: "nat list \<Rightarrow> nat" where
  "digits_value ds = foldl (\<lambda>a d. 10 * a + d) 0 ds"

definition strip_sign :: "string \<Rightarrow> bool \<times> string" where
  "strip_sign s =
     (case s of
        [] \<Rightarrow> (False, [])
      | c # cs \<Rightarrow>
          if c = CHR ''-'' then (True, cs) else if c = CHR ''+'' then (False, cs) else (False, s))"

definition py_int :: "string \<Rightarrow> int option" where
  "py_int s =
     (case strip_sign s of
        (neg, body) \<Rightarrow>
          (case digitpart body of
             None \<Rightarrow> None
           | Some ds \<Rightarrow> Some (if neg then - int (digits_value ds) else int (digits_value ds))))"

definition to_lower :: "char \<Rightarrow> char" where
  "to_lower c =
     (case map_of (zip ''ABCDEFGHIJKLMNOPQRSTUVWXYZ'' ''abcdefghijklmnopqrstuvwxyz'') c of
        None \<Rightarrow> c
      | Some l \<Rightarrow> l)"

definition number :: "string \<Rightarrow> real option" where
  "number s =
     (let ip = takeWhile (\<lambda>c. c \<noteq> CHR ''.'') s;
          rest = dropWhile (\<lambda>c. c \<noteq> CHR ''.'') s
      in case rest of
           [] \<Rightarrow> map_option (\<lambda>ds. real (digits_value ds)) (digitpart ip)
         | _ # fp \<Rightarrow>
             if fp = [] then map_option (\<lambda>ds. real (digits_value ds)) (digitpart ip)
             else
               (case digitpart fp of
                  None \<Rightarrow> None
                | Some fds \<Rightarrow>
                    if ip = [] then Some (real (digits_value fds) / 10 ^ length fds)
                    else
                      map_option
                        (\<lambda>ds. real (digits_value ds) + real (digits_value fds) / 10 ^ length fds)
                        (digitpart ip)))"

definition floatnumber :: "string \<Rightarrow> real option" where
  "floatnumber s =
     (let mant = takeWhile (\<lambda>c. c \<noteq> CHR ''e'' \<and> c \<noteq> CHR ''E'') s;
          rest = dropWhile (\<lambda>c. c \<noteq> CHR ''e'' \<and> c \<noteq> CHR ''E'') s
      in case number mant of
           None \<Rightarrow> None
         | Some m \<Rightarrow>
             (case rest of
                [] \<Rightarrow> Some m
              | _ # ex \<Rightarrow>
                  (case strip_sign ex of
                     (neg, body) \<Rightarrow>
                       map_option
                         (\<lambda>ds. if neg then m / 10 ^ digits_value ds else m * 10 ^ digits_value ds)
                         (digitpart body))))"

definition py_float :: "string \<Rightarrow> pyfloat option" where
  "py_float s =
     (case strip_sign s of
        (neg, body) \<Rightarrow>
          if map to_lower body = ''inf'' \<or> map to_lower body = ''infinity''
          then Some (if neg then NegInf else PosInf)
          else if map to_lower body = ''nan'' then Some NaN
          else map_option (\<lambda>r. Finite (if neg then - r else r)) (floatnumber body))"

text \<open>
  \<^verbatim>\<open>min(points, key=f)\<close> and \<^verbatim>\<open>max(points, key=f)\<close> over a list with first element
  \<open>best\<close>: the first element with the least, respectively greatest, key.
\<close>

fun py_min_by :: "('a \<Rightarrow> 'k::linorder) \<Rightarrow> 'a \<Rightarrow> 'a list \<Rightarrow> 'a" where
  "py_min_by key best [] = best"
| "py_min_by key best (p # ps) = py_min_by key (if key p < key best then p else best) ps"

fun py_max_by :: "('a \<Rightarrow> 'k::linorder) \<Rightarrow> 'a \<Rightarrow> 'a list \<Rightarrow> 'a" where
  "py_max_by key best [] = best"
| "py_max_by key best (p # ps) = py_max_by key (if key p > key best then p else best) ps"


section \<open>MSRA\_TD500.py: one annotation record\<close>

text \<open>
  \<^verbatim>\<open>rotate_rectangle\<close> is imported from \<^verbatim>\<open>utils/numpy_utils/numpy_functions.py\<close>, which
  is not among the sources: the functions of this module take it as the parameter
  \<open>rot\<close>, from the corner list and the angle to the rotated points, whose coordinates
  may be of any linearly ordered type.  The fields of an annotation are those the
  constructors assign (modelled from the spec: the base constructor stores the four
  coordinates it is given).
\<close>

record 'c MSRA_TD500_annotation =
  x1 :: 'c
  y1 :: 'c
  x2 :: 'c
  y2 :: 'c
  idx :: int
  difficult :: bool

definition normalize_bboxes ::
  "((int \<times> int) list \<Rightarrow> pyfloat \<Rightarrow> ('c::linorder \<times> 'c) list)
     \<Rightarrow> int \<Rightarrow> int \<Rightarrow> int \<Rightarrow> int \<Rightarrow> string \<Rightarrow> error + ('c \<times> 'c \<times> 'c \<times> 'c)" where
  "normalize_bboxes rot x y w h angle =
     (let xlu = x; ylu = y;
          xrd = xlu + w; yrd = ylu + h;
          xld = xlu; yld = yrd;
          xru = xrd; yru = ylu
      in case py_float angle of
           None \<Rightarrow> Inl ValueError
         | Some a \<Rightarrow>
             (case rot [(xlu, ylu), (xld, yld), (xrd, yrd), (xru, yru)] a of
                [] \<Rightarrow> Inl ValueError
              | p # ps \<Rightarrow>
                  Inr (fst (py_min_by fst p ps), snd (py_min_by snd p ps),
                       fst (py_max_by fst p ps), snd (py_max_by snd p ps))))"

text \<open>
  The constructor unpacks \<^verbatim>\<open>annot_str.split()\<close> into seven names, which raises
  ValueError for any other number of tokens, then converts the fields in the order
  index, x, y, w, h, and the angle last, inside \<^verbatim>\<open>normalize_bboxes\<close>.
\<close>

definition MSRA_TD500_annotation_init ::
  "((int \<times> int) list \<Rightarrow> pyfloat \<Rightarrow> ('c::linorder \<times> 'c) list)
     \<Rightarrow> string \<Rightarrow> error + 'c MSRA_TD500_annotation" where
  "MSRA_TD500_annotation_init rot annot_str =
     (let toks = py_split annot_str in
      if length toks \<noteq> 7 then Inl ValueError
      else
        (case py_int (toks ! 0) of None \<Rightarrow> Inl ValueError | Some i \<Rightarrow>
        (case py_int (toks ! 2) of None \<Rightarrow> Inl ValueError | Some x \<Rightarrow>
        (case py_int (toks ! 3) of None \<Rightarrow> Inl ValueError | Some y \<Rightarrow>
        (case py_int (toks ! 4) of None \<Rightarrow> Inl ValueError | Some w \<Rightarrow>
        (case py_int (toks ! 5) of None \<Rightarrow> Inl ValueError | Some h \<Rightarrow>
        (case normalize_bboxes rot x y w h (toks ! 6) of
           Inl e \<Rightarrow> Inl e
         | Inr (a, b, c, d) \<Rightarrow>
             Inr \<lparr>x1 = a, y1 = b, x2 = c, y2 = d,
                  idx = i, difficult = (toks ! 1 = ''1'')\<rparr>)))))))"


section \<open>MSRA\_TD500.py: reading a subset and a dataset\<close>

text \<open>
  The file system the code reads: the directories with their listings (in the order
  the system yields them), and for the paths that can be opened or that fail in a way
  of their own, what reading them gives: the lines, as \<^verbatim>\<open>readlines\<close> returns them, or
  the reason why the file cannot be read.  A path that is no key of \<open>dirs\<close> is no
  directory.  \<^verbatim>\<open>Path.glob('*.gt')\<close> yields the entries of a directory whose names end in
  \<^verbatim>\<open>.gt\<close>, files and directories alike, and nothing when the directory does not exist.
  \<^verbatim>\<open>open\<close> followed by \<^verbatim>\<open>readlines\<close> raises PermissionError, UnicodeDecodeError or
  another OSError on a file that cannot be read, IsADirectoryError on a directory, and
  FileNotFoundError on a path that is neither.  Paths are compared component by
  component.
\<close>

datatype unreadable = NoPermission | NotDecodable | OtherFailure

record filesystem =
  dirs :: "(path \<times> string list) list"
  files :: "(path \<times> (unreadable + string list)) list"

definition ends_with :: "string \<Rightarrow> string \<Rightarrow> bool" where
  "ends_with suffix name =
     (length suffix \<le> length name \<and> drop (length name - length suffix) name = suffix)"

definition glob :: "filesystem \<Rightarrow> path \<Rightarrow> string \<Rightarrow> path list" where
  "glob fs dir suffix =
     (case map_of (dirs fs) dir of
        None \<Rightarrow> []
      | Some names \<Rightarrow> map (\<lambda>n. dir @ [n]) (filter (ends_with suffix) names))"

definition readlines :: "filesystem \<Rightarrow> path \<Rightarrow> error + string list" where
  "readlines fs pth =
     (case map_of (files fs) pth of
        Some (Inr ls) \<Rightarrow> Inr ls
      | Some (Inl NoPermission) \<Rightarrow> Inl PermissionError
      | Some (Inl NotDecodable) \<Rightarrow> Inl UnicodeDecodeError
      | Some (Inl OtherFailure) \<Rightarrow> Inl OSError
      | None \<Rightarrow>
          if map_of (dirs fs) pth \<noteq> None then Inl IsADirectoryError
          else Inl FileNotFoundError)"

fun annots_loop ::
  "((int \<times> int) list \<Rightarrow> pyfloat \<Rightarrow> ('c::linorder \<times> 'c) list)
     \<Rightarrow> string list \<Rightarrow> error + 'c MSRA_TD500_annotation list" where
  "annots_loop rot [] = Inr []"
| "annots_loop rot (annot_str # rest) =
     (case MSRA_TD500_annotation_init rot annot_str of
        Inl e \<Rightarrow> Inl e
      | Inr annot \<Rightarrow>
          (case annots_loop rot rest of Inl e \<Rightarrow> Inl e | Inr annots \<Rightarrow> Inr (annot # annots)))"

definition read_annotation_file ::
  "((int \<times> int) list \<Rightarrow> pyfloat \<Rightarrow> ('c::linorder \<times> 'c) list)
     \<Rightarrow> filesystem \<Rightarrow> path \<Rightarrow> error + 'c MSRA_TD500_annotation list" where
  "read_annotation_file rot fs annot_pth =
     (case readlines fs annot_pth of Inl e \<Rightarrow> Inl e | Inr ls \<Rightarrow> annots_loop rot ls)"

fun samples_loop ::
  "((int \<times> int) list \<Rightarrow> pyfloat \<Rightarrow> ('c::linorder \<times> 'c) list)
     \<Rightarrow> filesystem \<Rightarrow> (path \<times> path) list
     \<Rightarrow> error + 'c MSRA_TD500_annotation BaseTextDetectionSample list" where
  "samples_loop rot fs [] = Inr []"
| "samples_loop rot fs ((annot_file, img_pth) # rest) =
     (case read_annotation_file rot fs annot_file of
        Inl e \<Rightarrow> Inl e
      | Inr annots \<Rightarrow>
          (case samples_loop rot fs rest of
             Inl e \<Rightarrow> Inl e
           | Inr samples \<Rightarrow> Inr (\<lparr>image_path = img_pth, annotations = annots\<rparr> # samples)))"

definition read_set ::
  "((int \<times> int) list \<Rightarrow> pyfloat \<Rightarrow> ('c::linorder \<times> 'c) list)
     \<Rightarrow> filesystem \<Rightarrow> path
     \<Rightarrow> error + 'c MSRA_TD500_annotation BaseTextDetectionSample list" where
  "read_set rot fs set_dir =
     (let annots_files = sort (glob fs set_dir ''.gt'');
          img_pths = sort (glob fs set_dir ''.JPG'')
      in samples_loop rot fs (zip annots_files img_pths))"

definition MSRA_TD500_dataset_init ::
  "((int \<times> int) list \<Rightarrow> pyfloat \<Rightarrow> ('c::linorder \<times> 'c) list)
     \<Rightarrow> filesystem \<Rightarrow> path
     \<Rightarrow> error + 'c MSRA_TD500_annotation BaseTextDetectionSample BaseTextDetectionDataset" where
  "MSRA_TD500_dataset_init rot fs folder =
     (let self = BaseTextDetectionDataset_init folder;
          train_dir = dset_folder self @ [''train''];
          test_dir = dset_folder self @ [''test'']
      in case read_set rot fs train_dir of
           Inl e \<Rightarrow> Inl e
         | Inr train \<Rightarrow>
             (case read_set rot fs test_dir of
                Inl e \<Rightarrow> Inl e
              | Inr test \<Rightarrow>
                  Inr (self\<lparr>subsets :=
                         AList.update ''test'' test
                           (AList.update ''train'' train (subsets self))\<rparr>)))"


section \<open>image\_functions.py: reading an image\<close>

text \<open>
  \<^verbatim>\<open>read_image\<close> checks that the path exists before it decodes the file.  The two
  functions of the OpenCV library it calls are parameters: \<open>imread\<close>, which returns
  no image when it cannot decode, and \<open>cvtColor\<close>.
\<close>

datatype imread_flag = IMREAD_GRAYSCALE | IMREAD_COLOR

definition path_exists :: "filesystem \<Rightarrow> path \<Rightarrow> bool" where
  "path_exists fs pth = (map_of (files fs) pth \<noteq> None \<or> map_of (dirs fs) pth \<noteq> None)"

definition read_image ::
  "(path \<Rightarrow> imread_flag \<Rightarrow> 'img option) \<Rightarrow> ('img \<Rightarrow> 'img)
     \<Rightarrow> filesystem \<Rightarrow> path \<Rightarrow> bool \<Rightarrow> error + 'img" where
  "read_image imread cvtColor fs pth grayscale =
     (if \<not> path_exists fs pth then Inl FileNotFoundError
      else
        let flag = (if grayscale then IMREAD_GRAYSCALE else IMREAD_COLOR)
        in case imread pth flag of
             None \<Rightarrow> Inl ValueError
           | Some img \<Rightarrow> Inr (cvtColor img))"


section \<open>The geometry module\<close>

text \<open>
  Modelled from the spec: \<^verbatim>\<open>rotate_rectangle\<close> of
  \<^verbatim>\<open>utils/numpy_utils/numpy_functions.py\<close> is not among the sources.  Section 4.1 of the
  spec gives the rotation of a point about a pivot by an angle \<open>\<theta>\<close> as
  \<open>x' = px + (x - px) cos \<theta> - (y - py) sin \<theta>\<close> and
  \<open>y' = py + (x - px) sin \<theta> + (y - py) cos \<theta>\<close>, the pivot being the first corner of
  the rectangle when none is passed, as in the one call of the source.  The spec names
  degrees in section 4.1 and radians in section 4.2 as the unit of the angle: \<open>unit\<close> is
  the factor from the angle of the record to \<open>\<theta>\<close> (1 for radians, \<open>pi / 180\<close> for
  degrees).  Coordinates are real numbers, and the rotation is defined for finite
  angles only.
\<close>

definition rotate_points :: "real \<Rightarrow> (real \<times> real) list \<Rightarrow> real \<times> real \<Rightarrow> (real \<times> real) list" where
  "rotate_points \<theta> points pivot =
     map (\<lambda>(x, y).
            (fst pivot + (x - fst pivot) * cos \<theta> - (y - snd pivot) * sin \<theta>,
             snd pivot + (x - fst pivot) * sin \<theta> + (y - snd pivot) * cos \<theta>))
         points"

fun rotate_rectangle :: "real \<Rightarrow> (int \<times> int) list \<Rightarrow> pyfloat \<Rightarrow> (real \<times> real) list" where
  "rotate_rectangle unit points (Finite angle) =
     (case map (\<lambda>(x, y). (real_of_int x, real_of_int y)) points of
        [] \<Rightarrow> []
      | pivot # rest \<Rightarrow> rotate_points (unit * angle) (pivot # rest) pivot)"

section \<open>The cursor: proofs\<close>

lemma next_state_iter:
  assumes "subset s \<noteq> []"
  shows "((snd \<circ> Subset_next_sample) ^^ Suc k) s =
           s\<lparr>current_idx := (current_idx s + int (Suc k)) mod int (length (subset s))\<rparr>"
proof (induction k)
  case 0
  show ?case using assms by (simp add: Subset_next_sample_def Let_def)
next
  case (Suc k)
  have "((snd \<circ> Subset_next_sample) ^^ Suc (Suc k)) s =
          snd (Subset_next_sample (((snd \<circ> Subset_next_sample) ^^ Suc k) s))"
    by simp
  also have "\<dots> = s\<lparr>current_idx :=
       ((current_idx s + int (Suc k)) mod int (length (subset s)) + 1) mod int (length (subset s))\<rparr>"
    using assms by (simp only: Suc.IH) (simp add: Subset_next_sample_def Let_def)
  also have "((current_idx s + int (Suc k)) mod int (length (subset s)) + 1) mod int (length (subset s))
             = (current_idx s + int (Suc (Suc k))) mod int (length (subset s))"
    by (simp add: mod_add_left_eq add.assoc)
  finally show ?case .
qed

lemma previous_state_iter:
  assumes "0 \<le> current_idx s" "current_idx s < int (length (subset s))"
  shows "((snd \<circ> Subset_previous_sample) ^^ k) s =
           s\<lparr>current_idx := (current_idx s - int k) mod int (length (subset s))\<rparr>"
proof (induction k)
  case 0
  show ?case using assms by simp
next
  case (Suc k)
  let ?n = "int (length (subset s))"
  let ?j = "(current_idx s - int k) mod ?n"
  have n: "0 < ?n" using assms by linarith
  have j: "0 \<le> ?j" "?j < ?n" using n by simp_all
  have step: "(if ?j - 1 \<ge> 0 then ?j - 1 else ?n - 1) = (current_idx s - int (Suc k)) mod ?n"
  proof (cases "?j = 0")
    case True
    then have "(current_idx s - int k - 1) mod ?n = (0 - 1) mod ?n"
      by (metis mod_diff_left_eq)
    also have "\<dots> = ?n - 1" using n by (simp add: zmod_minus1)
    finally show ?thesis using True by (simp add: algebra_simps)
  next
    case False
    then have pos: "0 \<le> ?j - 1" "?j - 1 < ?n" using j by linarith+
    have "(current_idx s - int k - 1) mod ?n = (?j - 1) mod ?n"
      by (simp add: mod_diff_left_eq)
    also have "\<dots> = ?j - 1" using pos by (simp only: mod_pos_pos_trivial)
    finally show ?thesis using pos by (simp add: algebra_simps)
  qed
  have "((snd \<circ> Subset_previous_sample) ^^ Suc k) s =
          snd (Subset_previous_sample (((snd \<circ> Subset_previous_sample) ^^ k) s))"
    by simp
  also have "\<dots> = s\<lparr>current_idx := (if ?j - 1 \<ge> 0 then ?j - 1 else ?n - 1)\<rparr>"
    by (simp only: Suc.IH) (simp add: Subset_previous_sample_def Let_def)
  finally show ?case by (simp only: step)
qed

lemma next_result:
  assumes "subset s \<noteq> []"
  shows "fst (Subset_next_sample s) =
           Inr (subset s ! nat ((current_idx s + 1) mod int (length (subset s))))"
  using assms by (simp add: Subset_next_sample_def Let_def py_getitem_def)

lemma previous_result:
  assumes "0 \<le> current_idx s" "current_idx s < int (length (subset s))"
  shows "fst (Subset_previous_sample s) =
           Inr (subset s ! nat ((current_idx s - 1) mod int (length (subset s))))"
proof (cases "current_idx s = 0")
  case True
  then show ?thesis
    using assms by (simp add: Subset_previous_sample_def Let_def py_getitem_def zmod_minus1)
next
  case False
  then have "0 \<le> current_idx s - 1" "current_idx s - 1 < int (length (subset s))"
    using assms by linarith+
  then show ?thesis
    by (simp add: Subset_previous_sample_def Let_def py_getitem_def)
qed

lemma nat_mod_shift:
  assumes "0 \<le> i" "i < int n" "0 < n"
  shows "nat ((i + int (n - 1) + 1) mod int n) = nat i"
    and "nat (((i - int (n - 1)) mod int n - 1) mod int n) = nat i"
proof -
  have a: "i + int (n - 1) + 1 = i + int n" using assms by simp
  have "(i + int n) mod int n = i" using assms by simp
  then show "nat ((i + int (n - 1) + 1) mod int n) = nat i" by (simp only: a)
  have "((i - int (n - 1)) mod int n - 1) mod int n = (i - int (n - 1) - 1) mod int n"
    by (simp add: mod_diff_left_eq)
  also have "i - int (n - 1) - 1 = i - int n" using assms by simp
  also have "(i - int n) mod int n = i" using assms by simp
  finally show "nat (((i - int (n - 1)) mod int n - 1) mod int n) = nat i" by simp
qed


section \<open>The cursor: claims\<close>

text \<open>
  C4 (cursor circularity).  On a subset of \<open>n\<close> samples with the cursor at a valid
  index \<open>i\<close>, \<open>n\<close> calls of \<^verbatim>\<open>next_sample\<close> leave the object exactly as it was, and
  the \<open>n\<close>-th call returns the sample at \<open>i\<close>; the same holds for \<open>n\<close> calls of
  \<^verbatim>\<open>previous_sample\<close>.
\<close>

theorem C4_cursor_circularity:
  assumes "0 \<le> current_idx s" and "current_idx s < int (length (subset s))"
  shows "((snd \<circ> Subset_next_sample) ^^ length (subset s)) s = s
       \<and> fst (Subset_next_sample (((snd \<circ> Subset_next_sample) ^^ (length (subset s) - 1)) s))
           = Inr (subset s ! nat (current_idx s))
       \<and> ((snd \<circ> Subset_previous_sample) ^^ length (subset s)) s = s
       \<and> fst (Subset_previous_sample
                (((snd \<circ> Subset_previous_sample) ^^ (length (subset s) - 1)) s))
           = Inr (subset s ! nat (current_idx s))"
proof -
  let ?n = "length (subset s)"
  have ne: "subset s \<noteq> []" and n: "0 < ?n" using assms by auto
  obtain m where m: "?n = Suc m" using n by (cases ?n) auto
  have same: "(current_idx s + int ?n) mod int ?n = current_idx s"
             "(current_idx s - int ?n) mod int ?n = current_idx s"
    using assms by simp_all
  have n1: "((snd \<circ> Subset_next_sample) ^^ ?n) s = s"
    using next_state_iter [OF ne, of m] same(1) by (simp only: m [symmetric]) simp
  have p1: "((snd \<circ> Subset_previous_sample) ^^ ?n) s = s"
    using previous_state_iter [OF assms, of ?n] same(2) by simp
  have nk: "((snd \<circ> Subset_next_sample) ^^ (?n - 1)) s =
              s\<lparr>current_idx := (current_idx s + int (?n - 1)) mod int ?n\<rparr>"
  proof (cases m)
    case 0
    then show ?thesis using m assms by simp
  next
    case (Suc m')
    then show ?thesis using next_state_iter [OF ne, of m'] m by simp
  qed
  have n2: "fst (Subset_next_sample (((snd \<circ> Subset_next_sample) ^^ (?n - 1)) s))
              = Inr (subset s ! nat (current_idx s))"
    using ne nat_mod_shift(1) [OF assms n]
    by (simp only: nk) (simp add: next_result mod_add_left_eq)
  have pk: "((snd \<circ> Subset_previous_sample) ^^ (?n - 1)) s =
              s\<lparr>current_idx := (current_idx s - int (?n - 1)) mod int ?n\<rparr>"
    by (rule previous_state_iter [OF assms])
  have p2: "fst (Subset_previous_sample (((snd \<circ> Subset_previous_sample) ^^ (?n - 1)) s))
              = Inr (subset s ! nat (current_idx s))"
  proof -
    let ?t = "s\<lparr>current_idx := (current_idx s - int (?n - 1)) mod int ?n\<rparr>"
    have "0 \<le> current_idx ?t" "current_idx ?t < int (length (subset ?t))"
      using n by simp_all
    from previous_result [OF this] nat_mod_shift(2) [OF assms n]
    show ?thesis by (simp only: pk) simp
  qed
  from n1 n2 p1 p2 show ?thesis by blast
qed

theorem C4_cursor_circularity_witness:
  "0 \<le> current_idx \<lparr>subset = [''a'', ''b'', ''c''], current_idx = 1\<rparr>
   \<and> current_idx \<lparr>subset = [''a'', ''b'', ''c''], current_idx = 1\<rparr>
       < int (length (subset \<lparr>subset = [''a'', ''b'', ''c''], current_idx = 1\<rparr>))
   \<and> ((snd \<circ> Subset_next_sample) ^^ 3) \<lparr>subset = [''a'', ''b'', ''c''], current_idx = 1\<rparr>
       = \<lparr>subset = [''a'', ''b'', ''c''], current_idx = 1\<rparr>
   \<and> fst (Subset_next_sample
        (((snd \<circ> Subset_next_sample) ^^ 2) \<lparr>subset = [''a'', ''b'', ''c''], current_idx = 1\<rparr>))
       = Inr ''b''
   \<and> ((snd \<circ> Subset_previous_sample) ^^ 3) \<lparr>subset = [''a'', ''b'', ''c''], current_idx = 1\<rparr>
       = \<lparr>subset = [''a'', ''b'', ''c''], current_idx = 1\<rparr>
   \<and> fst (Subset_previous_sample
        (((snd \<circ> Subset_previous_sample) ^^ 2) \<lparr>subset = [''a'', ''b'', ''c''], current_idx = 1\<rparr>))
       = Inr ''b''"
  using C4_cursor_circularity [of "\<lparr>subset = [''a'', ''b'', ''c''], current_idx = 1\<rparr>"]
  by (simp add: numeral_2_eq_2 numeral_3_eq_3)

text \<open>
  C10 (one advance repairs any index).  On a non-empty subset, whatever integer the
  cursor holds, also one just stored by \<^verbatim>\<open>set_index\<close>, which checks nothing, one call
  of \<^verbatim>\<open>next_sample\<close> leaves the cursor at \<open>(index + 1) mod len\<close>, which lies in
  \<open>[0, len)\<close>, and returns the sample at that index.
\<close>

theorem C10_next_sample_restores_range:
  assumes "subset s \<noteq> []"
  shows "snd (Subset_set_index s j) = s\<lparr>current_idx := j\<rparr>
       \<and> fst (Subset_set_index s j) = Inr ()
       \<and> (let (r, s') = Subset_next_sample (snd (Subset_set_index s j))
          in subset s' = subset s
           \<and> current_idx s' = (j + 1) mod int (length (subset s))
           \<and> 0 \<le> current_idx s' \<and> current_idx s' < int (length (subset s'))
           \<and> r = Inr (subset s' ! nat (current_idx s')))"
  using assms
  by (simp add: Subset_set_index_def Subset_next_sample_def Let_def py_getitem_def)

theorem C10_next_sample_restores_range_witness:
  "subset \<lparr>subset = [''a'', ''b'', ''c''], current_idx = 0\<rparr> \<noteq> []
   \<and> snd (Subset_set_index \<lparr>subset = [''a'', ''b'', ''c''], current_idx = 0\<rparr> (- 8))
       = \<lparr>subset = [''a'', ''b'', ''c''], current_idx = - 8\<rparr>
   \<and> Subset_next_sample \<lparr>subset = [''a'', ''b'', ''c''], current_idx = - 8\<rparr>
       = (Inr ''c'', \<lparr>subset = [''a'', ''b'', ''c''], current_idx = 2\<rparr>)"
  using C10_next_sample_restores_range
          [of "\<lparr>subset = [''a'', ''b'', ''c''], current_idx = 0\<rparr>" "- 8"]
  by (simp add: Subset_set_index_def Subset_next_sample_def Let_def py_getitem_def)


section \<open>The dataset wrapper: proofs\<close>

lemma update_fresh:
  "k \<notin> fst ` set al \<Longrightarrow> AList.update k v al = al @ [(k, v)]"
  by (induction al) auto

lemma comprehension_pairs:
  assumes "\<forall>(n, xs) \<in> set ps. Dataset_getitem ds n = Inr xs"
      and "distinct (map fst ps)"
      and "fst ` set ps \<inter> fst ` set acc = {}"
  shows "comprehension ds (map fst ps) acc =
           Inr (acc @ map (\<lambda>(n, xs). (n, Subset_init xs)) (filter (\<lambda>p. snd p \<noteq> []) ps))"
  using assms
proof (induction ps arbitrary: acc)
  case Nil
  show ?case by simp
next
  case (Cons p ps)
  obtain n xs where p: "p = (n, xs)" by (cases p)
  have g: "Dataset_getitem ds n = Inr xs" using Cons.prems(1) p by simp
  have fresh: "n \<notin> fst ` set acc" using Cons.prems(3) p by auto
  have rest: "\<forall>(n, xs) \<in> set ps. Dataset_getitem ds n = Inr xs" "distinct (map fst ps)"
    using Cons.prems by simp_all
  show ?case
  proof (cases "xs = []")
    case True
    have "fst ` set ps \<inter> fst ` set acc = {}" using Cons.prems(3) by auto
    from Cons.IH [OF rest this] show ?thesis using g p True by simp
  next
    case False
    have "fst ` set ps \<inter> fst ` set (acc @ [(n, Subset_init xs)]) = {}"
      using Cons.prems(2,3) p by auto
    from Cons.IH [OF rest this] show ?thesis
      using g p False by (simp add: update_fresh [OF fresh])
  qed
qed

lemma ViewerDataset_init_eq:
  assumes "distinct (map fst (subsets ds))"
  shows "ViewerDataset_init ds =
           (case filter (\<lambda>p. snd p \<noteq> []) (subsets ds) of
              [] \<Rightarrow> Inl IndexError
            | p # ps \<Rightarrow>
                Inr \<lparr>v_subsets = map (\<lambda>(n, xs). (n, Subset_init xs)) (p # ps),
                     current_subset = fst p\<rparr>)"
proof -
  have "\<forall>(n, xs) \<in> set (subsets ds). Dataset_getitem ds n = Inr xs"
    using assms by (auto simp: Dataset_getitem_def dict_getitem_def)
  from comprehension_pairs [OF this assms, of "[]"]
  have c: "comprehension ds (get_subsets_names ds) [] =
        Inr (map (\<lambda>(n, xs). (n, Subset_init xs)) (filter (\<lambda>p. snd p \<noteq> []) (subsets ds)))"
    by (simp add: get_subsets_names_def)
  show ?thesis
    by (simp add: ViewerDataset_init_def c py_getitem_def split: list.splits prod.splits)
qed

section \<open>The dataset wrapper: claims\<close>

text \<open>
  C8 (empty dataset), as amended.  For a dataset whose mapping has distinct keys (it
  is a dict): when every subset is empty, the constructor of \<^verbatim>\<open>ViewerDataset\<close> fails,
  and the exception is Python's IndexError, raised by taking element 0 of the empty key
  list; when some subset is not empty, the constructor succeeds, keeps exactly the
  non-empty subsets in the order of the dataset, and the current subset name is the
  first of them, a key of the wrapper's dict under which a fresh cursor over a
  non-empty sample list is found.
\<close>

theorem C8_empty_dataset:
  assumes "distinct (map fst (subsets ds))"
  shows "((\<forall>p \<in> set (subsets ds). snd p = []) \<longrightarrow> ViewerDataset_init ds = Inl IndexError)
       \<and> ((\<exists>p \<in> set (subsets ds). snd p \<noteq> []) \<longrightarrow>
            (\<exists>vd. ViewerDataset_init ds = Inr vd
               \<and> available_subsets vd = map fst (filter (\<lambda>p. snd p \<noteq> []) (subsets ds))
               \<and> current_subset vd = hd (available_subsets vd)
               \<and> current_subset vd \<in> set (available_subsets vd)
               \<and> (\<exists>xs. xs \<noteq> [] \<and> Dataset_getitem ds (current_subset vd) = Inr xs
                      \<and> get_current_subset vd = Inr (Subset_init xs))))"
proof (intro conjI impI)
  assume "\<forall>p \<in> set (subsets ds). snd p = []"
  then have "filter (\<lambda>p. snd p \<noteq> []) (subsets ds) = []"
    by (auto simp: filter_empty_conv)
  then show "ViewerDataset_init ds = Inl IndexError"
    by (simp add: ViewerDataset_init_eq [OF assms])
next
  assume "\<exists>p \<in> set (subsets ds). snd p \<noteq> []"
  then obtain n xs ps where f: "filter (\<lambda>p. snd p \<noteq> []) (subsets ds) = (n, xs) # ps"
    by (cases "filter (\<lambda>p. snd p \<noteq> []) (subsets ds)") (auto simp: filter_empty_conv)
  let ?vd = "\<lparr>v_subsets = (n, Subset_init xs) # map (\<lambda>(n, xs). (n, Subset_init xs)) ps,
              current_subset = n\<rparr>"
  have i: "ViewerDataset_init ds = Inr ?vd"
    by (simp add: ViewerDataset_init_eq [OF assms] f)
  have "(n, xs) \<in> set (filter (\<lambda>p. snd p \<noteq> []) (subsets ds))" by (simp add: f)
  then have mem: "(n, xs) \<in> set (subsets ds)" and ne: "xs \<noteq> []" by auto
  have g: "Dataset_getitem ds n = Inr xs"
    using assms mem by (simp add: Dataset_getitem_def dict_getitem_def)
  have av: "available_subsets ?vd = n # map fst ps"
    by (simp add: available_subsets_def comp_def case_prod_unfold)
  have a: "available_subsets ?vd = map fst (filter (\<lambda>p. snd p \<noteq> []) (subsets ds))"
    using av by (simp add: f)
  have c3: "current_subset ?vd = hd (available_subsets ?vd)"
    and c4: "current_subset ?vd \<in> set (available_subsets ?vd)"
    using av by simp_all
  have gc: "get_current_subset ?vd = Inr (Subset_init xs)"
    by (simp add: get_current_subset_def dict_getitem_def)
  have c5: "\<exists>xs. xs \<noteq> [] \<and> Dataset_getitem ds (current_subset ?vd) = Inr xs
                      \<and> get_current_subset ?vd = Inr (Subset_init xs)"
    using ne g gc by auto
  from i a c3 c4 c5
  show "\<exists>vd. ViewerDataset_init ds = Inr vd
               \<and> available_subsets vd = map fst (filter (\<lambda>p. snd p \<noteq> []) (subsets ds))
               \<and> current_subset vd = hd (available_subsets vd)
               \<and> current_subset vd \<in> set (available_subsets vd)
               \<and> (\<exists>xs. xs \<noteq> [] \<and> Dataset_getitem ds (current_subset vd) = Inr xs
                      \<and> get_current_subset vd = Inr (Subset_init xs))"
    by blast
qed

text \<open>
  C8 as stated fails: over a dataset with two empty subsets the constructor raises
  IndexError, not an EmptyDatasetError.
\<close>

theorem C8_empty_dataset_counterexample:
  "ViewerDataset_init \<lparr>dset_folder = [''d''],
       subsets = [(''train'', [] :: string list), (''test'', [])]\<rparr> = Inl IndexError
   \<and> ViewerDataset_init \<lparr>dset_folder = [''d''],
       subsets = [(''train'', [] :: string list), (''test'', [])]\<rparr> \<noteq> Inl EmptyDatasetError"
  by (simp add: ViewerDataset_init_def get_subsets_names_def Dataset_getitem_def
        dict_getitem_def py_getitem_def)

theorem C8_empty_dataset_witness:
  "distinct (map fst (subsets \<lparr>dset_folder = [''d''],
       subsets = [(''train'', [] :: string list), (''test'', [''s''])]\<rparr>))
   \<and> (''test'', [''s'']) \<in> set (subsets \<lparr>dset_folder = [''d''],
       subsets = [(''train'', [] :: string list), (''test'', [''s''])]\<rparr>)
   \<and> snd (''test'', [''s'']) \<noteq> []
   \<and> (\<exists>vd. ViewerDataset_init \<lparr>dset_folder = [''d''],
              subsets = [(''train'', [] :: string list), (''test'', [''s''])]\<rparr> = Inr vd
          \<and> available_subsets vd = [''test''] \<and> current_subset vd = ''test'')
   \<and> distinct (map fst (subsets \<lparr>dset_folder = [''d''],
       subsets = [(''train'', [] :: string list), (''test'', [])]\<rparr>))
   \<and> map snd (subsets \<lparr>dset_folder = [''d''],
       subsets = [(''train'', [] :: string list), (''test'', [])]\<rparr>) = [[], []]
   \<and> ViewerDataset_init \<lparr>dset_folder = [''d''],
       subsets = [(''train'', [] :: string list), (''test'', [])]\<rparr> = Inl IndexError"
  using C8_empty_dataset [of "\<lparr>dset_folder = [''d''],
                  subsets = [(''train'', [] :: string list), (''test'', [''s''])]\<rparr>"]
        C8_empty_dataset [of "\<lparr>dset_folder = [''d''],
                  subsets = [(''train'', [] :: string list), (''test'', [])]\<rparr>"]
  by auto

text \<open>
  C9 (unknown subset name), as amended.  \<^verbatim>\<open>set_current_subset\<close> stores any name and
  never fails.  After a name that is no key of the wrapper's dict has been stored,
  the accessors that look the current subset up
  (\<^verbatim>\<open>get_current_subset\<close>, \<^verbatim>\<open>get_current_sample\<close>, \<^verbatim>\<open>get_current_index\<close>,
  \<^verbatim>\<open>next_sample\<close>, \<^verbatim>\<open>previous_sample\<close>) fail with KeyError and change nothing.
\<close>

theorem C9_unknown_subset:
  "set_current_subset vd name = (Inr (), vd\<lparr>current_subset := name\<rparr>)
   \<and> (name \<notin> set (available_subsets vd) \<longrightarrow>
        get_current_subset (vd\<lparr>current_subset := name\<rparr>) = Inl KeyError
      \<and> get_current_sample (vd\<lparr>current_subset := name\<rparr>) = Inl KeyError
      \<and> get_current_index (vd\<lparr>current_subset := name\<rparr>) = Inl KeyError
      \<and> ViewerDataset_next_sample (vd\<lparr>current_subset := name\<rparr>)
          = (Inl KeyError, vd\<lparr>current_subset := name\<rparr>)
      \<and> ViewerDataset_previous_sample (vd\<lparr>current_subset := name\<rparr>)
          = (Inl KeyError, vd\<lparr>current_subset := name\<rparr>))"
proof -
  have "map_of (v_subsets vd) name = None" if "name \<notin> set (available_subsets vd)"
    using that by (simp add: available_subsets_def map_of_eq_None_iff)
  then show ?thesis
    by (simp add: set_current_subset_def get_current_subset_def get_current_sample_def
          get_current_index_def ViewerDataset_next_sample_def ViewerDataset_previous_sample_def
          dict_getitem_def)
qed

text \<open>
  C9 as stated fails: on a wrapper with the subsets train and test,
  \<^verbatim>\<open>set_current_subset("validation")\<close> returns normally.
\<close>

theorem C9_unknown_subset_counterexample:
  "fst (set_current_subset
         \<lparr>v_subsets = [(''train'', \<lparr>subset = [''s1''], current_idx = 0\<rparr>),
                       (''test'', \<lparr>subset = [''s2''], current_idx = 0\<rparr>)],
          current_subset = ''train''\<rparr> ''validation'') = Inr ()
   \<and> fst (set_current_subset
         \<lparr>v_subsets = [(''train'', \<lparr>subset = [''s1''], current_idx = 0\<rparr>),
                       (''test'', \<lparr>subset = [''s2''], current_idx = 0\<rparr>)],
          current_subset = ''train''\<rparr> ''validation'') \<noteq> Inl InvalidSubsetError"
  by (simp add: set_current_subset_def)

theorem C9_unknown_subset_witness:
  "''validation'' \<notin> set (available_subsets
         \<lparr>v_subsets = [(''train'', \<lparr>subset = [''s1''], current_idx = 0\<rparr>),
                       (''test'', \<lparr>subset = [''s2''], current_idx = 0\<rparr>)],
          current_subset = ''train''\<rparr>)
   \<and> set_current_subset
         \<lparr>v_subsets = [(''train'', \<lparr>subset = [''s1''], current_idx = 0\<rparr>),
                       (''test'', \<lparr>subset = [''s2''], current_idx = 0\<rparr>)],
          current_subset = ''train''\<rparr> ''validation''
       = (Inr (),
         \<lparr>v_subsets = [(''train'', \<lparr>subset = [''s1''], current_idx = 0\<rparr>),
                       (''test'', \<lparr>subset = [''s2''], current_idx = 0\<rparr>)],
          current_subset = ''validation''\<rparr>)
   \<and> get_current_sample
         \<lparr>v_subsets = [(''train'', \<lparr>subset = [''s1''], current_idx = 0\<rparr>),
                       (''test'', \<lparr>subset = [''s2''], current_idx = 0\<rparr>)],
          current_subset = ''validation''\<rparr> = Inl KeyError
   \<and> ViewerDataset_next_sample
         \<lparr>v_subsets = [(''train'', \<lparr>subset = [''s1''], current_idx = 0\<rparr>),
                       (''test'', \<lparr>subset = [''s2''], current_idx = 0\<rparr>)],
          current_subset = ''validation''\<rparr>
       = (Inl KeyError,
         \<lparr>v_subsets = [(''train'', \<lparr>subset = [''s1''], current_idx = 0\<rparr>),
                       (''test'', \<lparr>subset = [''s2''], current_idx = 0\<rparr>)],
          current_subset = ''validation''\<rparr>)"
  using C9_unknown_subset [of "\<lparr>v_subsets = [(''train'', \<lparr>subset = [''s1''], current_idx = 0\<rparr>),
                       (''test'', \<lparr>subset = [''s2''], current_idx = 0\<rparr>)],
          current_subset = ''train''\<rparr>" "''validation''"]
  by (simp add: available_subsets_def)



section \<open>Annotation records: proofs\<close>

lemmas parse_eval =
  py_float_def strip_sign_def floatnumber_def number_def to_lower_def digits_value_def
  is_digit_def digit_val_def py_split_def is_space_def py_int_def

lemma py_split_no_break_space:
  "py_split (''7 1'' @ [CHR 0xA0] @ '' 3 4 10 20 1.5'' @ [CHR 0x85])
     = [''7'', ''1'', ''3'', ''4'', ''10'', ''20'', ''1.5'']"
  by (simp add: py_split_def is_space_def)

lemma key_py_min_by: "key (py_min_by key best ps) = Min (key ` set (best # ps))"
proof -
  have k: "key (if key p < key b then p else b) = min (key p) (key b)" for p b
    by (auto simp: min_def)
  have "key (py_min_by key best ps) = fold min (map key ps) (key best)"
  proof (induction ps arbitrary: best)
    case Nil
    show ?case by simp
  next
    case (Cons p ps)
    have "key (py_min_by key best (p # ps)) =
            fold min (map key ps) (key (if key p < key best then p else best))"
      by (simp only: py_min_by.simps Cons.IH)
    then show ?case by (simp only: k list.map fold_simps)
  qed
  also have "\<dots> = Min (set (map key (best # ps)))"
    by (simp only: list.map Min.set_eq_fold)
  finally show ?thesis by simp
qed

lemma key_py_max_by: "key (py_max_by key best ps) = Max (key ` set (best # ps))"
proof -
  have k: "key (if key p > key b then p else b) = max (key p) (key b)" for p b
    by (auto simp: max_def)
  have "key (py_max_by key best ps) = fold max (map key ps) (key best)"
  proof (induction ps arbitrary: best)
    case Nil
    show ?case by simp
  next
    case (Cons p ps)
    have "key (py_max_by key best (p # ps)) =
            fold max (map key ps) (key (if key p > key best then p else best))"
      by (simp only: py_max_by.simps Cons.IH)
    then show ?case by (simp only: k list.map fold_simps)
  qed
  also have "\<dots> = Max (set (map key (best # ps)))"
    by (simp only: list.map Max.set_eq_fold)
  finally show ?thesis by simp
qed

lemma normalize_bboxes_eq:
  assumes "py_float a_tok = Some a"
      and "rot [(x, y), (x, y + h), (x + w, y + h), (x + w, y)] a = pts" and "pts \<noteq> []"
  shows "normalize_bboxes rot x y w h a_tok =
           Inr (Min (fst ` set pts), Min (snd ` set pts), Max (fst ` set pts), Max (snd ` set pts))"
proof -
  obtain p ps where pts: "pts = p # ps" using assms(3) by (cases pts) auto
  show ?thesis
    using assms(1,2)
    by (simp add: normalize_bboxes_def Let_def pts key_py_min_by key_py_max_by)
qed

lemma annotation_init_eq:
  assumes "py_split s = [i_tok, d_tok, x_tok, y_tok, w_tok, h_tok, a_tok]"
      and "py_int i_tok = Some i" and "py_int x_tok = Some x" and "py_int y_tok = Some y"
      and "py_int w_tok = Some w" and "py_int h_tok = Some h"
  shows "MSRA_TD500_annotation_init rot s =
           (case normalize_bboxes rot x y w h a_tok of
              Inl e \<Rightarrow> Inl e
            | Inr (a, b, c, d) \<Rightarrow>
                Inr \<lparr>x1 = a, y1 = b, x2 = c, y2 = d, idx = i, difficult = (d_tok = ''1'')\<rparr>)"
  using assms
  by (cases "normalize_bboxes rot x y w h a_tok")
     (auto simp: MSRA_TD500_annotation_init_def Let_def)


section \<open>Annotation records: claims\<close>

text \<open>
  C1 (one annotation record).  For a record of seven tokens whose index, x, y, w and h
  tokens are integers and whose angle token is a float, the constructor (a) builds the
  corners \<open>(x, y)\<close>, \<open>(x, y + h)\<close>, \<open>(x + w, y + h)\<close>, \<open>(x + w, y)\<close> in this order,
  (b) passes them with the angle to \<^verbatim>\<open>rotate_rectangle\<close>, (c) stores the least and
  greatest x and y of the points it returns as \<open>(x1, y1, x2, y2)\<close>, and (d) sets
  \<^verbatim>\<open>difficult\<close> to whether the second token is the string \<^verbatim>\<open>1\<close>.  This holds for
  every \<^verbatim>\<open>rotate_rectangle\<close> that returns at least one point.
\<close>

theorem C1_annotation_record:
  assumes "py_split s = [i_tok, d_tok, x_tok, y_tok, w_tok, h_tok, a_tok]"
      and "py_int i_tok = Some i" and "py_int x_tok = Some x" and "py_int y_tok = Some y"
      and "py_int w_tok = Some w" and "py_int h_tok = Some h"
      and "py_float a_tok = Some a"
      and "rot [(x, y), (x, y + h), (x + w, y + h), (x + w, y)] a = pts" and "pts \<noteq> []"
  shows "MSRA_TD500_annotation_init rot s =
           Inr \<lparr>x1 = Min (fst ` set pts), y1 = Min (snd ` set pts),
                x2 = Max (fst ` set pts), y2 = Max (snd ` set pts),
                idx = i, difficult = (d_tok = ''1'')\<rparr>"
  by (simp add: annotation_init_eq [OF assms(1-6)] normalize_bboxes_eq [where rot = rot, OF assms(7-9)])

theorem C1_annotation_record_witness:
  "py_split ''7 1 3 4 10 20 1.5'' = [''7'', ''1'', ''3'', ''4'', ''10'', ''20'', ''1.5'']
   \<and> py_int ''7'' = Some 7 \<and> py_int ''3'' = Some 3 \<and> py_int ''4'' = Some 4
   \<and> py_int ''10'' = Some 10 \<and> py_int ''20'' = Some 20
   \<and> py_float ''1.5'' = Some (Finite (3 / 2))
   \<and> (\<lambda>pts a. map (\<lambda>(x, y). (- y, x)) pts) [(3, 4), (3, 4 + 20), (3 + 10, 4 + 20), (3 + 10, 4)]
         (Finite (3 / 2)) = [(- 4, 3), (- 24, 3), (- 24, 13), (- 4, 13 :: int)]
   \<and> [(- 4, 3), (- 24, 3), (- 24, 13), (- 4, 13 :: int)] \<noteq> []
   \<and> MSRA_TD500_annotation_init (\<lambda>pts a. map (\<lambda>(x, y). (- y, x)) pts) ''7 1 3 4 10 20 1.5''
       = Inr \<lparr>x1 = - 24, y1 = 3, x2 = - 4, y2 = 13, idx = 7, difficult = True\<rparr>"
  using C1_annotation_record [of "''7 1 3 4 10 20 1.5''" "''7''" "''1''" "''3''" "''4''" "''10''" "''20''" "''1.5''"
               7 3 4 10 20 "Finite (3 / 2)" "\<lambda>pts a. map (\<lambda>(x, y). (- y, x)) pts"
               "[(- 4, 3), (- 24, 3), (- 24, 13), (- 4, 13)]"]
  by (simp add: parse_eval)


text \<open>
  C2 (zero angle).  With the rotation of section 4.1 of the spec, in either unit, a
  record whose angle token reads as 0, its w and h being a width and a height and so
  not negative, yields exactly the box \<open>(x, y, x + w, y + h)\<close>, and \<^verbatim>\<open>difficult\<close> is
  whether the second token is \<^verbatim>\<open>1\<close>, hence false for the token \<^verbatim>\<open>0\<close>; the record
  \<^verbatim>\<open>1 0 10 20 30 40 0.0\<close> yields \<open>(10, 20, 40, 60)\<close> with \<^verbatim>\<open>difficult\<close> false.
\<close>

theorem C2_zero_angle:
  assumes "py_split s = [i_tok, d_tok, x_tok, y_tok, w_tok, h_tok, a_tok]"
      and "py_int i_tok = Some i" and "py_int x_tok = Some x" and "py_int y_tok = Some y"
      and "py_int w_tok = Some w" and "py_int h_tok = Some h"
      and "py_float a_tok = Some (Finite 0)"
      and "0 \<le> w" and "0 \<le> h"
  shows "MSRA_TD500_annotation_init (rotate_rectangle u) s =
           Inr \<lparr>x1 = real_of_int x, y1 = real_of_int y,
                x2 = real_of_int (x + w), y2 = real_of_int (y + h),
                idx = i, difficult = (d_tok = ''1'')\<rparr>"
proof -
  have "normalize_bboxes (rotate_rectangle u) x y w h a_tok =
          Inr (real_of_int x, real_of_int y, real_of_int (x + w), real_of_int (y + h))"
    using assms(7-9)
    by (simp add: normalize_bboxes_def Let_def rotate_points_def)
  then show ?thesis by (simp add: annotation_init_eq [OF assms(1-6)])
qed

theorem C2_zero_angle_witness:
  "py_split ''1 0 10 20 30 40 0.0'' = [''1'', ''0'', ''10'', ''20'', ''30'', ''40'', ''0.0'']
   \<and> py_int ''1'' = Some 1 \<and> py_int ''10'' = Some 10 \<and> py_int ''20'' = Some 20
   \<and> py_int ''30'' = Some 30 \<and> py_int ''40'' = Some 40
   \<and> py_float ''0.0'' = Some (Finite 0) \<and> (0::int) \<le> 30 \<and> (0::int) \<le> 40
   \<and> MSRA_TD500_annotation_init (rotate_rectangle 1) ''1 0 10 20 30 40 0.0''
       = Inr \<lparr>x1 = 10, y1 = 20, x2 = 40, y2 = 60, idx = 1, difficult = False\<rparr>"
  using C2_zero_angle [of "''1 0 10 20 30 40 0.0''" "''1''" "''0''" "''10''" "''20''" "''30''" "''40''" "''0.0''"
               1 10 20 30 40 1]
  by (simp add: parse_eval)



section \<open>Reading annotation files: proofs\<close>

lemma init_error_is_ValueError:
  "MSRA_TD500_annotation_init rot l = Inl e \<Longrightarrow> e = ValueError"
  by (auto simp: MSRA_TD500_annotation_init_def normalize_bboxes_def Let_def
           split: if_splits option.splits sum.splits list.splits prod.splits)


lemma annots_loop_error_is_ValueError:
  "annots_loop rot ls = Inl e \<Longrightarrow> e = ValueError"
  by (induction ls arbitrary: e)
     (auto split: sum.splits dest: init_error_is_ValueError)


lemma readlines_errors:
  "readlines fs p = Inl e \<Longrightarrow>
     e \<in> {FileNotFoundError, IsADirectoryError, PermissionError, UnicodeDecodeError, OSError}"
  by (auto simp: readlines_def split: option.splits sum.splits unreadable.splits if_splits)

lemma readlines_directory:
  "map_of (files fs) p = None \<Longrightarrow> map_of (dirs fs) p = Some names
     \<Longrightarrow> readlines fs p = Inl IsADirectoryError"
  by (simp add: readlines_def)

lemma read_annotation_file_errors:
  "read_annotation_file rot fs p = Inl e \<Longrightarrow>
     e \<in> {ValueError, FileNotFoundError, IsADirectoryError, PermissionError,
          UnicodeDecodeError, OSError}"
  using readlines_errors [of fs p e]
  by (auto simp: read_annotation_file_def split: sum.splits
           dest: annots_loop_error_is_ValueError)

lemma samples_loop_errors:
  "samples_loop rot fs prs = Inl e \<Longrightarrow>
     e \<in> {ValueError, FileNotFoundError, IsADirectoryError, PermissionError,
          UnicodeDecodeError, OSError}"
proof (induction prs arbitrary: e)
  case Nil
  then show ?case by simp
next
  case (Cons pr prs)
  obtain a b where pr: "pr = (a, b)" by (cases pr)
  show ?case
  proof (cases "read_annotation_file rot fs a")
    case (Inl e')
    then show ?thesis using Cons.prems read_annotation_file_errors [OF Inl] by (simp add: pr)
  next
    case (Inr anns)
    then show ?thesis using Cons.prems Cons.IH by (auto simp: pr split: sum.splits)
  qed
qed





section \<open>Reading annotation files: claims\<close>







section \<open>Reading subsets and datasets: proofs\<close>

lemma samples_loop_never_missing:
  "samples_loop rot fs prs \<noteq> Inl MissingResourceError"
  using samples_loop_errors [of rot fs prs MissingResourceError] by auto

lemma samples_loop_ok:
  assumes "\<forall>pr \<in> set prs. \<exists>annots. read_annotation_file rot fs (fst pr) = Inr annots"
  shows "\<exists>samples. samples_loop rot fs prs = Inr samples
           \<and> map image_path samples = map snd prs
           \<and> (\<forall>k < length prs. read_annotation_file rot fs (fst (prs ! k)) = Inr (annotations (samples ! k)))"
  using assms
proof (induction prs)
  case Nil
  show ?case by simp
next
  case (Cons pr prs)
  obtain a b where pr: "pr = (a, b)" by (cases pr)
  obtain annots where an: "read_annotation_file rot fs a = Inr annots"
    using Cons.prems pr by auto
  obtain samples where s: "samples_loop rot fs prs = Inr samples"
      "map image_path samples = map snd prs"
      "\<forall>k < length prs. read_annotation_file rot fs (fst (prs ! k)) = Inr (annotations (samples ! k))"
    using Cons.IH Cons.prems by auto
  have "samples_loop rot fs (pr # prs) = Inr (\<lparr>image_path = b, annotations = annots\<rparr> # samples)"
    by (simp add: pr an s(1))
  moreover have "\<forall>k < length (pr # prs). read_annotation_file rot fs (fst ((pr # prs) ! k))
        = Inr (annotations ((\<lparr>image_path = b, annotations = annots\<rparr> # samples) ! k))"
    using s(3) an pr by (auto simp: nth_Cons split: nat.splits)
  ultimately show ?case using s(2) pr by simp
qed

lemma read_set_absent:
  "map_of (dirs fs) set_dir = None \<Longrightarrow> read_set rot fs set_dir = Inr []"
  by (simp add: read_set_def glob_def)


section \<open>Reading subsets and datasets: claims\<close>

text \<open>
  C7 (unpaired files), as amended.  \<^verbatim>\<open>read_set\<close> never fails with a
  MissingResourceError.  It zips the sorted annotation files with the sorted image
  files: when the paired annotation files can be read, it returns one sample for each
  of the first \<open>min (number of .gt files) (number of .JPG files)\<close> positions, the
  \<open>k\<close>-th sample holding the \<open>k\<close>-th image path and the annotations of the \<open>k\<close>-th
  annotation file, and drops the files beyond that without an error.  A missing image
  is reported only by \<^verbatim>\<open>read_image\<close>, as FileNotFoundError, when it is called on a path
  that does not exist; \<^verbatim>\<open>read_set\<close> does not call it.
\<close>

theorem C7_unpaired_files:
  "read_set rot fs set_dir \<noteq> Inl MissingResourceError
   \<and> ((\<forall>pr \<in> set (zip (sort (glob fs set_dir ''.gt'')) (sort (glob fs set_dir ''.JPG''))).
          \<exists>annots. read_annotation_file rot fs (fst pr) = Inr annots) \<longrightarrow>
       (\<exists>samples. read_set rot fs set_dir = Inr samples
          \<and> length samples = min (length (glob fs set_dir ''.gt'')) (length (glob fs set_dir ''.JPG''))
          \<and> map image_path samples
              = take (length (glob fs set_dir ''.gt'')) (sort (glob fs set_dir ''.JPG''))
          \<and> (\<forall>k < length samples.
                read_annotation_file rot fs (sort (glob fs set_dir ''.gt'') ! k)
                  = Inr (annotations (samples ! k)))))
   \<and> (\<not> path_exists fs pth \<longrightarrow> read_image imread cvtColor fs pth grayscale = Inl FileNotFoundError)"
proof -
  let ?A = "sort (glob fs set_dir ''.gt'')" and ?B = "sort (glob fs set_dir ''.JPG'')"
  have 1: "read_set rot fs set_dir \<noteq> Inl MissingResourceError"
    by (simp add: read_set_def Let_def samples_loop_never_missing)
  have 2: "\<exists>samples. read_set rot fs set_dir = Inr samples
          \<and> length samples = min (length (glob fs set_dir ''.gt'')) (length (glob fs set_dir ''.JPG''))
          \<and> map image_path samples = take (length (glob fs set_dir ''.gt'')) ?B
          \<and> (\<forall>k < length samples.
                read_annotation_file rot fs (?A ! k) = Inr (annotations (samples ! k)))"
    if h: "\<forall>pr \<in> set (zip ?A ?B). \<exists>annots. read_annotation_file rot fs (fst pr) = Inr annots"
  proof -
    from samples_loop_ok [OF h] obtain samples where
      s: "samples_loop rot fs (zip ?A ?B) = Inr samples"
         "map image_path samples = map snd (zip ?A ?B)"
         "\<forall>k < length (zip ?A ?B). read_annotation_file rot fs (fst (zip ?A ?B ! k))
             = Inr (annotations (samples ! k))"
      by blast
    have len: "length samples = length (zip ?A ?B)"
      using s(2) by (metis length_map)
    have a: "read_set rot fs set_dir = Inr samples" using s(1) by (simp add: read_set_def Let_def)
    have b: "length samples = min (length (glob fs set_dir ''.gt'')) (length (glob fs set_dir ''.JPG''))"
      using len by simp
    have c: "map image_path samples = take (length (glob fs set_dir ''.gt'')) ?B"
      using s(2) by (simp add: map_snd_zip_take min_def)
    have d: "\<forall>k < length samples. read_annotation_file rot fs (?A ! k) = Inr (annotations (samples ! k))"
      using s(3) len by auto
    from a b c d show ?thesis by blast
  qed
  have 3: "read_image imread cvtColor fs pth grayscale = Inl FileNotFoundError"
    if "\<not> path_exists fs pth"
    using that by (simp add: read_image_def)
  from 1 2 3 show ?thesis by blast
qed

theorem C7_unpaired_files_witness:
  "zip (sort (glob \<lparr>dirs = [([''d'', ''train''], [''b.JPG'', ''b.gt'', ''a.gt''])],
      files = [([''d'', ''train'', ''a.gt''], Inr [''1 0 10 20 30 40 0.0'']),
               ([''d'', ''train'', ''b.gt''], Inr [''1 1 0 0 5 5 0.0''])]\<rparr> [''d'', ''train''] ''.gt''))
       (sort (glob \<lparr>dirs = [([''d'', ''train''], [''b.JPG'', ''b.gt'', ''a.gt''])],
      files = [([''d'', ''train'', ''a.gt''], Inr [''1 0 10 20 30 40 0.0'']),
               ([''d'', ''train'', ''b.gt''], Inr [''1 1 0 0 5 5 0.0''])]\<rparr> [''d'', ''train''] ''.JPG''))
     = [([''d'', ''train'', ''a.gt''], [''d'', ''train'', ''b.JPG''])]
   \<and> read_annotation_file (rotate_rectangle 1)
         \<lparr>dirs = [([''d'', ''train''], [''b.JPG'', ''b.gt'', ''a.gt''])],
          files = [([''d'', ''train'', ''a.gt''], Inr [''1 0 10 20 30 40 0.0'']),
               ([''d'', ''train'', ''b.gt''], Inr [''1 1 0 0 5 5 0.0''])]\<rparr> [''d'', ''train'', ''a.gt'']
       = Inr [\<lparr>x1 = 10, y1 = 20, x2 = 40, y2 = 60, idx = 1, difficult = False\<rparr>]
   \<and> \<not> path_exists \<lparr>dirs = [([''d'', ''train''], [''b.JPG'', ''b.gt'', ''a.gt''])],
          files = [([''d'', ''train'', ''a.gt''], Inr [''1 0 10 20 30 40 0.0'']),
               ([''d'', ''train'', ''b.gt''], Inr [''1 1 0 0 5 5 0.0''])]\<rparr> [''d'', ''train'', ''a.JPG'']
   \<and> (\<exists>samples. read_set (rotate_rectangle 1)
         \<lparr>dirs = [([''d'', ''train''], [''b.JPG'', ''b.gt'', ''a.gt''])],
          files = [([''d'', ''train'', ''a.gt''], Inr [''1 0 10 20 30 40 0.0'']),
               ([''d'', ''train'', ''b.gt''], Inr [''1 1 0 0 5 5 0.0''])]\<rparr> [''d'', ''train''] = Inr samples
        \<and> length samples = 1
        \<and> map image_path samples = [[''d'', ''train'', ''b.JPG'']])
   \<and> read_image (\<lambda>p f. Some (0::nat)) (\<lambda>i. i)
         \<lparr>dirs = [([''d'', ''train''], [''b.JPG'', ''b.gt'', ''a.gt''])],
          files = [([''d'', ''train'', ''a.gt''], Inr [''1 0 10 20 30 40 0.0'']),
               ([''d'', ''train'', ''b.gt''], Inr [''1 1 0 0 5 5 0.0''])]\<rparr>
         [''d'', ''train'', ''a.JPG''] False = Inl FileNotFoundError"
  using C7_unpaired_files [of "rotate_rectangle 1"
      "\<lparr>dirs = [([''d'', ''train''], [''b.JPG'', ''b.gt'', ''a.gt''])],
          files = [([''d'', ''train'', ''a.gt''], Inr [''1 0 10 20 30 40 0.0'']),
               ([''d'', ''train'', ''b.gt''], Inr [''1 1 0 0 5 5 0.0''])]\<rparr>"
      "[''d'', ''train'']" "[''d'', ''train'', ''a.JPG'']" "\<lambda>p f. Some (0::nat)" "\<lambda>i. i" False]
  by (auto simp: glob_def ends_with_def less_eq_char_def less_char_def path_exists_def
        read_annotation_file_def readlines_def MSRA_TD500_annotation_init_def
        normalize_bboxes_def rotate_points_def parse_eval)


text \<open>
  C7 as stated fails: a directory with the annotation files \<^verbatim>\<open>a.gt\<close> and \<^verbatim>\<open>b.gt\<close> but
  the one image \<^verbatim>\<open>b.JPG\<close> is read without an error; the image is paired with the
  annotations of \<^verbatim>\<open>a.gt\<close>, and \<^verbatim>\<open>b.gt\<close> is skipped.
\<close>

theorem C7_unpaired_files_counterexample:
  "read_set (rotate_rectangle 1)
     \<lparr>dirs = [([''d'', ''train''], [''b.JPG'', ''b.gt'', ''a.gt''])],
      files = [([''d'', ''train'', ''a.gt''], Inr [''1 0 10 20 30 40 0.0'']),
               ([''d'', ''train'', ''b.gt''], Inr [''1 1 0 0 5 5 0.0''])]\<rparr>
     [''d'', ''train'']
   = Inr [\<lparr>image_path = [''d'', ''train'', ''b.JPG''],
           annotations = [\<lparr>x1 = 10, y1 = 20, x2 = 40, y2 = 60, idx = 1, difficult = False\<rparr>]\<rparr>]"
  by (simp add: read_set_def glob_def ends_with_def read_annotation_file_def readlines_def less_eq_char_def less_char_def MSRA_TD500_annotation_init_def
        normalize_bboxes_def rotate_points_def parse_eval)



text \<open>
  C5 (absent test folder), as amended.  When the root has no \<^verbatim>\<open>test\<close> folder and the
  \<^verbatim>\<open>train\<close> folder is read without error, opening the dataset succeeds and its mapping
  has both keys, \<^verbatim>\<open>train\<close> and \<^verbatim>\<open>test\<close>, the latter with the empty sample list.  The
  empty subset is left out one level up: the \<^verbatim>\<open>ViewerDataset\<close> over this dataset has
  exactly the subset \<^verbatim>\<open>train\<close> when \<^verbatim>\<open>train\<close> has a sample, and its construction
  fails with IndexError when \<^verbatim>\<open>train\<close> is empty too.
\<close>

theorem C5_absent_test_folder:
  assumes "map_of (dirs fs) (folder @ [''test'']) = None"
      and "read_set rot fs (folder @ [''train'']) = Inr train"
  shows "MSRA_TD500_dataset_init rot fs folder
           = Inr \<lparr>dset_folder = folder, subsets = [(''train'', train), (''test'', [])]\<rparr>
       \<and> get_subsets_names \<lparr>dset_folder = folder, subsets = [(''train'', train), (''test'', [])]\<rparr>
           = [''train'', ''test'']
       \<and> Dataset_getitem \<lparr>dset_folder = folder, subsets = [(''train'', train), (''test'', [])]\<rparr>
            ''test'' = Inr []
       \<and> (train \<noteq> [] \<longrightarrow>
            ViewerDataset_init \<lparr>dset_folder = folder, subsets = [(''train'', train), (''test'', [])]\<rparr>
              = Inr \<lparr>v_subsets = [(''train'', Subset_init train)], current_subset = ''train''\<rparr>
          \<and> available_subsets \<lparr>v_subsets = [(''train'', Subset_init train)], current_subset = ''train''\<rparr>
              = [''train''])
       \<and> (train = [] \<longrightarrow>
            ViewerDataset_init \<lparr>dset_folder = folder, subsets = [(''train'', train), (''test'', [])]\<rparr>
              = Inl IndexError)"
proof -
  let ?ds = "\<lparr>dset_folder = folder, subsets = [(''train'', train), (''test'', [])]\<rparr>"
  have 1: "MSRA_TD500_dataset_init rot fs folder = Inr ?ds"
    using assms(2) read_set_absent [OF assms(1), of rot]
    by (simp add: MSRA_TD500_dataset_init_def Let_def BaseTextDetectionDataset_init_def)
  have 2: "get_subsets_names ?ds = [''train'', ''test'']"
    by (simp add: get_subsets_names_def)
  have 3: "Dataset_getitem ?ds ''test'' = Inr []"
    by (simp add: Dataset_getitem_def dict_getitem_def)
  have d: "distinct (map fst (subsets ?ds))" by simp
  have 4: "ViewerDataset_init ?ds
             = Inr \<lparr>v_subsets = [(''train'', Subset_init train)], current_subset = ''train''\<rparr>"
    if "train \<noteq> []"
    using that by (simp add: ViewerDataset_init_eq [OF d])
  have 5: "available_subsets \<lparr>v_subsets = [(''train'', Subset_init train)], current_subset = ''train''\<rparr>
              = [''train'']"
    by (simp add: available_subsets_def)
  have 6: "ViewerDataset_init ?ds = Inl IndexError" if "train = []"
    using that
    by (simp add: ViewerDataset_init_def get_subsets_names_def Dataset_getitem_def
          dict_getitem_def py_getitem_def)
  from 1 2 3 4 5 6 show ?thesis by blast
qed

theorem C5_absent_test_folder_witness:
  "map_of (dirs \<lparr>dirs = [([''d''], [''train'']), ([''d'', ''train''], [''a.gt'', ''a.JPG''])],
      files = [([''d'', ''train'', ''a.gt''], Inr [''1 0 10 20 30 40 0.0''])]\<rparr>) ([''d''] @ [''test''])
     = None
   \<and> read_set (rotate_rectangle 1)
        \<lparr>dirs = [([''d''], [''train'']), ([''d'', ''train''], [''a.gt'', ''a.JPG''])],
         files = [([''d'', ''train'', ''a.gt''], Inr [''1 0 10 20 30 40 0.0''])]\<rparr> ([''d''] @ [''train''])
     = Inr [\<lparr>image_path = [''d'', ''train'', ''a.JPG''],
             annotations = [\<lparr>x1 = 10, y1 = 20, x2 = 40, y2 = 60, idx = 1, difficult = False\<rparr>]\<rparr>]
   \<and> [\<lparr>image_path = [''d'', ''train'', ''a.JPG''],
        annotations = [\<lparr>x1 = 10 :: real, y1 = 20, x2 = 40, y2 = 60, idx = 1, difficult = False\<rparr>]\<rparr>]
       \<noteq> []
   \<and> ViewerDataset_init \<lparr>dset_folder = [''d''],
          subsets = [(''train'', [\<lparr>image_path = [''d'', ''train'', ''a.JPG''],
                       annotations = [\<lparr>x1 = 10 :: real, y1 = 20, x2 = 40, y2 = 60,
                                        idx = 1, difficult = False\<rparr>]\<rparr>]),
                     (''test'', [])]\<rparr>
     = Inr \<lparr>v_subsets = [(''train'', Subset_init [\<lparr>image_path = [''d'', ''train'', ''a.JPG''],
                       annotations = [\<lparr>x1 = 10, y1 = 20, x2 = 40, y2 = 60,
                                        idx = 1, difficult = False\<rparr>]\<rparr>])],
            current_subset = ''train''\<rparr>
   \<and> map_of (dirs \<lparr>dirs = [([''d''], [''train'']), ([''d'', ''train''], [])], files = []\<rparr>)
        ([''d''] @ [''test'']) = None
   \<and> read_set (rotate_rectangle 1)
        \<lparr>dirs = [([''d''], [''train'']), ([''d'', ''train''], [])], files = []\<rparr>
        ([''d''] @ [''train'']) = Inr []
   \<and> ViewerDataset_init \<lparr>dset_folder = [''d''],
          subsets = [(''train'', [] :: real MSRA_TD500_annotation BaseTextDetectionSample list),
                     (''test'', [])]\<rparr> = Inl IndexError"
  using C5_absent_test_folder [of "\<lparr>dirs = [([''d''], [''train'']), ([''d'', ''train''], [''a.gt'', ''a.JPG''])],
      files = [([''d'', ''train'', ''a.gt''], Inr [''1 0 10 20 30 40 0.0''])]\<rparr>" "[''d'']"
      "rotate_rectangle 1"
      "[\<lparr>image_path = [''d'', ''train'', ''a.JPG''],
             annotations = [\<lparr>x1 = 10, y1 = 20, x2 = 40, y2 = 60, idx = 1, difficult = False\<rparr>]\<rparr>]"]
    C5_absent_test_folder [of "\<lparr>dirs = [([''d''], [''train'']), ([''d'', ''train''], [])], files = []\<rparr>" "[''d'']"
      "rotate_rectangle 1" "[]"]
  by (simp add: read_set_def glob_def ends_with_def read_annotation_file_def
        readlines_def MSRA_TD500_annotation_init_def normalize_bboxes_def rotate_points_def
        parse_eval)


text \<open>
  C5 as stated fails: for a root that holds only a \<^verbatim>\<open>train\<close> folder, the subset names
  of the dataset are \<^verbatim>\<open>train\<close> and \<^verbatim>\<open>test\<close>.
\<close>

theorem C5_absent_test_folder_counterexample:
  "MSRA_TD500_dataset_init (rotate_rectangle 1)
     \<lparr>dirs = [([''d''], [''train'']), ([''d'', ''train''], [''a.gt'', ''a.JPG''])],
      files = [([''d'', ''train'', ''a.gt''], Inr [''1 0 10 20 30 40 0.0''])]\<rparr> [''d'']
   = Inr \<lparr>dset_folder = [''d''],
          subsets = [(''train'', [\<lparr>image_path = [''d'', ''train'', ''a.JPG''],
                       annotations = [\<lparr>x1 = 10, y1 = 20, x2 = 40, y2 = 60,
                                        idx = 1, difficult = False\<rparr>]\<rparr>]),
                     (''test'', [])]\<rparr>
   \<and> get_subsets_names \<lparr>dset_folder = [''d''],
          subsets = [(''train'', [\<lparr>image_path = [''d'', ''train'', ''a.JPG''],
                       annotations = [\<lparr>x1 = 10 :: real, y1 = 20, x2 = 40, y2 = 60,
                                        idx = 1, difficult = False\<rparr>]\<rparr>]),
                     (''test'', [])]\<rparr> = [''train'', ''test'']"
  by (simp add: MSRA_TD500_dataset_init_def BaseTextDetectionDataset_init_def
        get_subsets_names_def read_set_def glob_def ends_with_def read_annotation_file_def
        readlines_def MSRA_TD500_annotation_init_def normalize_bboxes_def rotate_points_def
        parse_eval)



end
